theory Spec2Isabelle
  imports Complex_Main
begin

section \<open>Data model\<close>

text \<open>
  The repository is one Python function, \<^verbatim>\<open>matrix_to_sycamore_operations\<close> in
  \<^verbatim>\<open>solution/solution.py\<close>. It is glue between two third-party libraries (Qiskit and
  Cirq). The libraries are not part of the repository, so every library call is a parameter
  of the model; what is verified is the control flow and the data flow of the glue.
\<close>

text \<open>The \<^verbatim>\<open>np.ndarray\<close> argument: a matrix of complex numbers, as a list of rows.\<close>

type_synonym matrix = "complex list list"

text \<open>A Python exception raised inside a library call.\<close>

datatype exception = Exception string

text \<open>
  The first component of the returned tuple: Python's \<^verbatim>\<open>NotImplemented\<close> placeholder or a
  list of operations.
\<close>

datatype 'op op_tree = NotImplemented | Operations "'op list"

subsection \<open>Library calls\<close>

text \<open>
  A library call runs in the state \<open>'w\<close> of everything outside the function (the libraries'
  own globals, the interpreter, the machine). It either raises (\<open>Inl\<close>) or returns a value
  (\<open>Inr\<close>), and leaves a new outside state.
\<close>

type_synonym ('w, 'a) lib_call = "'w \<Rightarrow> (exception + 'a) \<times> 'w"

text \<open>\<^verbatim>\<open>return x\<close>.\<close>

definition returns :: "'a \<Rightarrow> ('w, 'a) lib_call" where
  "returns x = (\<lambda>w. (Inr x, w))"

text \<open>
  One statement after another: the rest of the function body runs on the value of the call,
  in the state the call left; an exception ends the body, since the source has no
  \<^verbatim>\<open>try\<close>.
\<close>

definition and_then :: "('w, 'a) lib_call \<Rightarrow> ('a \<Rightarrow> ('w, 'b) lib_call) \<Rightarrow> ('w, 'b) lib_call" where
  "and_then f g = (\<lambda>w. case f w of (Inl e, w') \<Rightarrow> (Inl e, w') | (Inr x, w') \<Rightarrow> g x w')"

text \<open>
  The library entry points the function uses, in the order of their first use. \<open>'qc\<close> is
  Qiskit's circuit, \<open>'cc\<close> Cirq's circuit, \<open>'cv\<close> the converter object and \<open>'op\<close> a Cirq
  operation.
  \<^item> \<open>QuantumCircuit n\<close> is \<^verbatim>\<open>qiskit.QuantumCircuit(n)\<close>;
  \<^item> \<open>unitary qc m qs\<close> is \<^verbatim>\<open>qc.unitary(m, qs)\<close>, which appends to \<^verbatim>\<open>qc\<close> in place: the
    model returns the circuit after the call;
  \<^item> \<open>transpile qc gs\<close> is \<^verbatim>\<open>qiskit.transpile(qc, basis_gates=gs)\<close>;
  \<^item> \<open>import_qasm_import\<close> is the statement \<^verbatim>\<open>from cirq.contrib import qasm_import\<close>;
  \<^item> \<open>qasm qc\<close> is \<^verbatim>\<open>qc.qasm()\<close>;
  \<^item> \<open>circuit_from_qasm s\<close> is \<^verbatim>\<open>qasm_import.circuit_from_qasm(s)\<close>;
  \<^item> \<open>Circuit t\<close> is \<^verbatim>\<open>cirq.Circuit(t)\<close>, which the source calls once on a circuit (\<open>Inl\<close>)
    and once on a list of operations (\<open>Inr\<close>);
  \<^item> \<open>ConvertToSycamoreGates\<close> is \<^verbatim>\<open>cirq.google.ConvertToSycamoreGates()\<close>;
  \<^item> \<open>convert cv c\<close> is \<^verbatim>\<open>cv.convert(c)\<close>; the source takes \<^verbatim>\<open>len\<close> of its result, a list;
  \<^item> \<open>optimized_for_sycamore c\<close> is \<^verbatim>\<open>cirq.google.optimized_for_sycamore(c)\<close>;
  \<^item> \<open>all_operations c\<close> is \<^verbatim>\<open>list(c.all_operations())\<close>.
\<close>

record ('w, 'qc, 'cv, 'cc, 'op) libs =
  QuantumCircuit :: "nat \<Rightarrow> ('w, 'qc) lib_call"
  unitary :: "'qc \<Rightarrow> matrix \<Rightarrow> nat list \<Rightarrow> ('w, 'qc) lib_call"
  transpile :: "'qc \<Rightarrow> string list \<Rightarrow> ('w, 'qc) lib_call"
  import_qasm_import :: "('w, unit) lib_call"
  qasm :: "'qc \<Rightarrow> ('w, string) lib_call"
  circuit_from_qasm :: "string \<Rightarrow> ('w, 'cc) lib_call"
  Circuit :: "'cc + 'op list \<Rightarrow> ('w, 'cc) lib_call"
  ConvertToSycamoreGates :: "('w, 'cv) lib_call"
  convert :: "'cv \<Rightarrow> 'cc \<Rightarrow> ('w, 'op list) lib_call"
  optimized_for_sycamore :: "'cc \<Rightarrow> ('w, 'cc) lib_call"
  all_operations :: "'cc \<Rightarrow> ('w, 'op list) lib_call"

section \<open>The function\<close>

text \<open>
  \<^verbatim>\<open>
  def matrix_to_sycamore_operations(target_qubits, matrix):
      if len(target_qubits) > 4:
          return NotImplemented, []
      qc = qiskit.QuantumCircuit(len(target_qubits))
      qc.unitary(matrix, list(range(len(target_qubits))))
      qc = qiskit.transpile(qc, basis_gates=['cx', 'u3'])
      from cirq.contrib import qasm_import
      qasm = qc.qasm()
      qx = cirq.Circuit(qasm_import.circuit_from_qasm(qasm))
      convertor = cirq.google.ConvertToSycamoreGates()
      qz = convertor.convert(qx)
      qy = cirq.Circuit(qz)
      qy = cirq.google.optimized_for_sycamore(qy)
      qy = list(qy.all_operations())
      ans = qz if len(qy) > len(qz) else qy
      return ans, []
  \<close>
  The qubit identifiers have the type \<open>'q\<close>: the function only takes the length of
  \<^verbatim>\<open>target_qubits\<close>.
\<close>

definition matrix_to_sycamore_operations ::
  "('w, 'qc, 'cv, 'cc, 'op) libs \<Rightarrow> 'q list \<Rightarrow> matrix \<Rightarrow> ('w, 'op op_tree \<times> 'q list) lib_call" where
  "matrix_to_sycamore_operations libs target_qubits matrix =
     (if length target_qubits > 4 then returns (NotImplemented, [])
      else
        and_then (QuantumCircuit libs (length target_qubits)) (\<lambda>qc.
        and_then (unitary libs qc matrix [0..<length target_qubits]) (\<lambda>qc.
        and_then (transpile libs qc [''cx'', ''u3'']) (\<lambda>qc.
        and_then (import_qasm_import libs) (\<lambda>_.
        and_then (qasm libs qc) (\<lambda>qasm_text.
        and_then (circuit_from_qasm libs qasm_text) (\<lambda>parsed.
        and_then (Circuit libs (Inl parsed)) (\<lambda>qx.
        and_then (ConvertToSycamoreGates libs) (\<lambda>convertor.
        and_then (convert libs convertor qx) (\<lambda>qz.
        and_then (Circuit libs (Inr qz)) (\<lambda>qy.
        and_then (optimized_for_sycamore libs qy) (\<lambda>qy.
        and_then (all_operations libs qy) (\<lambda>qy.
        let ans = (if length qy > length qz then qz else qy)
        in returns (Operations ans, []))))))))))))))"

section \<open>Observing the library calls of a run\<close>

text \<open>
  To speak about which library calls a run makes, the libraries are wrapped so that each call
  appends its name, its plain arguments and its outcome to a log kept beside the outside
  state. The function itself is not changed: it is run on the wrapped libraries.
\<close>

datatype call =
  Call_QuantumCircuit nat
  | Call_unitary matrix "nat list"
  | Call_transpile "string list"
  | Call_import_qasm_import
  | Call_qasm
  | Call_circuit_from_qasm
  | Call_Circuit
  | Call_ConvertToSycamoreGates
  | Call_convert
  | Call_optimized_for_sycamore
  | Call_all_operations

datatype outcome = Returned | Raised exception

type_synonym call_log = "(call \<times> outcome) list"

definition outcome_of :: "exception + 'a \<Rightarrow> outcome" where
  "outcome_of r = (case r of Inl e \<Rightarrow> Raised e | Inr _ \<Rightarrow> Returned)"

definition log_call :: "call \<Rightarrow> ('w, 'a) lib_call \<Rightarrow> ('w \<times> call_log, 'a) lib_call" where
  "log_call c f = (\<lambda>(w, l). case f w of (r, w') \<Rightarrow> (r, (w', l @ [(c, outcome_of r)])))"

definition logged ::
  "('w, 'qc, 'cv, 'cc, 'op) libs \<Rightarrow> ('w \<times> call_log, 'qc, 'cv, 'cc, 'op) libs" where
  "logged libs =
     \<lparr> QuantumCircuit = (\<lambda>n. log_call (Call_QuantumCircuit n) (QuantumCircuit libs n)),
       unitary = (\<lambda>qc m qs. log_call (Call_unitary m qs) (unitary libs qc m qs)),
       transpile = (\<lambda>qc gs. log_call (Call_transpile gs) (transpile libs qc gs)),
       import_qasm_import = log_call Call_import_qasm_import (import_qasm_import libs),
       qasm = (\<lambda>qc. log_call Call_qasm (qasm libs qc)),
       circuit_from_qasm = (\<lambda>s. log_call Call_circuit_from_qasm (circuit_from_qasm libs s)),
       Circuit = (\<lambda>t. log_call Call_Circuit (Circuit libs t)),
       ConvertToSycamoreGates = log_call Call_ConvertToSycamoreGates (ConvertToSycamoreGates libs),
       convert = (\<lambda>cv c. log_call Call_convert (convert libs cv c)),
       optimized_for_sycamore =
         (\<lambda>c. log_call Call_optimized_for_sycamore (optimized_for_sycamore libs c)),
       all_operations = (\<lambda>c. log_call Call_all_operations (all_operations libs c)) \<rparr>"

text \<open>The library calls made by a run that starts in the outside state \<open>w\<close>, oldest first.\<close>

definition calls_of ::
  "('w, 'qc, 'cv, 'cc, 'op) libs \<Rightarrow> 'q list \<Rightarrow> matrix \<Rightarrow> 'w \<Rightarrow> call_log" where
  "calls_of libs target_qubits matrix w =
     snd (snd (matrix_to_sycamore_operations (logged libs) target_qubits matrix (w, [])))"


text \<open>
  How the log relates to the run it observes: the wrapped computation \<open>p'\<close> returns what
  \<open>p\<close> returns and leaves the outside state \<open>p\<close> leaves; it only appends to the log; an
  exception recorded in the appended part is the result of the computation and is its last
  entry; and an exception that is the result was recorded.
\<close>

definition observes :: "('w, 'a) lib_call \<Rightarrow> ('w \<times> call_log, 'a) lib_call \<Rightarrow> bool" where
  "observes p p' \<longleftrightarrow>
     (\<forall>w l. \<exists>k. p' (w, l) = (fst (p w), (snd (p w), l @ k)) \<and>
        (\<forall>c e. (c, Raised e) \<in> set k \<longrightarrow> fst (p w) = Inl e \<and> last k = (c, Raised e)) \<and>
        (\<forall>e. fst (p w) = Inl e \<longrightarrow> (\<exists>c. (c, Raised e) \<in> set k)))"

section \<open>The decomposition pipeline as the specification words it\<close>

text \<open>
  The specification lists the steps for at most four qubits: build a circuit of width \<open>n\<close>
  from the matrix, transpile it to the basis of \<^verbatim>\<open>cx\<close> and \<^verbatim>\<open>u3\<close>, serialise it to the
  interchange text and parse that into the second library's circuit, run the gate-set
  conversion, run the optimisation on the converted circuit, and flatten the result.
  \<open>pipeline_run libs n matrix w qz qy w'\<close> says that these steps, each started in the outside
  state its predecessor left, all return, that the conversion returns \<open>qz\<close>, that the
  flattened optimised circuit is \<open>qy\<close>, and that the last step leaves \<open>w'\<close>.
\<close>

definition pipeline_run ::
  "('w, 'qc, 'cv, 'cc, 'op) libs \<Rightarrow> nat \<Rightarrow> matrix \<Rightarrow> 'w \<Rightarrow> 'op list \<Rightarrow> 'op list \<Rightarrow> 'w \<Rightarrow> bool" where
  "pipeline_run libs n matrix w qz qy w' =
     (\<exists>qc0 w1 qc1 w2 qc2 w3 w4 text w5 parsed w6 qx w7 cv w8 w9 qy0 w10 qy1 w11.
        QuantumCircuit libs n w = (Inr qc0, w1) \<and>
        unitary libs qc0 matrix [0..<n] w1 = (Inr qc1, w2) \<and>
        transpile libs qc1 [''cx'', ''u3''] w2 = (Inr qc2, w3) \<and>
        import_qasm_import libs w3 = (Inr (), w4) \<and>
        qasm libs qc2 w4 = (Inr text, w5) \<and>
        circuit_from_qasm libs text w5 = (Inr parsed, w6) \<and>
        Circuit libs (Inl parsed) w6 = (Inr qx, w7) \<and>
        ConvertToSycamoreGates libs w7 = (Inr cv, w8) \<and>
        convert libs cv qx w8 = (Inr qz, w9) \<and>
        Circuit libs (Inr qz) w9 = (Inr qy0, w10) \<and>
        optimized_for_sycamore libs qy0 w10 = (Inr qy1, w11) \<and>
        all_operations libs qy1 w11 = (Inr qy, w'))"

text \<open>The library calls of a run in which every step returns, in the specification's order.\<close>

definition pipeline_calls :: "nat \<Rightarrow> matrix \<Rightarrow> call_log" where
  "pipeline_calls n matrix =
     [(Call_QuantumCircuit n, Returned),
      (Call_unitary matrix [0..<n], Returned),
      (Call_transpile [''cx'', ''u3''], Returned),
      (Call_import_qasm_import, Returned),
      (Call_qasm, Returned),
      (Call_circuit_from_qasm, Returned),
      (Call_Circuit, Returned),
      (Call_ConvertToSycamoreGates, Returned),
      (Call_convert, Returned),
      (Call_Circuit, Returned),
      (Call_optimized_for_sycamore, Returned),
      (Call_all_operations, Returned)]"



section \<open>Libraries without state\<close>



section \<open>A small library instance for concrete runs\<close>

text \<open>
  The theorems below hold for every library. To run the function on concrete inputs, here is
  one small instance. Its outside state is the number of library calls made so far and the
  contents of a file that no call touches. A Qiskit circuit is its width; the QASM text has
  one character for each qubit; the importer names its qubits \<^verbatim>\<open>q_0\<close>, \<^verbatim>\<open>q_1\<close>, ... and
  puts one \<^verbatim>\<open>u3\<close> on each; the conversion turns each operation into two; the optimisation
  drops the second of them. \<open>unitary\<close> raises when the matrix has the wrong number of rows.
\<close>

datatype qid = GridQubit int int | NamedQubit string

datatype gate_op = Gate_op (gate: string) (qubits: "qid list")

type_synonym toy_world = "nat \<times> string"

definition tick :: "'a \<Rightarrow> (toy_world, 'a) lib_call" where
  "tick x = (\<lambda>(calls, file). (Inr x, (Suc calls, file)))"

definition toy_libs :: "(toy_world, nat, unit, gate_op list, gate_op) libs" where
  "toy_libs =
     \<lparr> QuantumCircuit = (\<lambda>n. tick n),
       unitary = (\<lambda>qc m qs.
         if length m = 2 ^ qc then tick qc
         else (\<lambda>(calls, file).
           (Inl (Exception ''Input matrix has the wrong dimension''), (Suc calls, file)))),
       transpile = (\<lambda>qc gs. tick qc),
       import_qasm_import = tick (),
       qasm = (\<lambda>qc. tick (replicate qc CHR ''q'')),
       circuit_from_qasm = (\<lambda>s.
         tick (map (\<lambda>name. Gate_op ''u3'' [NamedQubit name])
                 (take (length s) [''q_0'', ''q_1'', ''q_2'', ''q_3'']))),
       Circuit = (\<lambda>t. tick (case t of Inl c \<Rightarrow> c | Inr ops \<Rightarrow> ops)),
       ConvertToSycamoreGates = tick (),
       convert = (\<lambda>cv c.
         tick (concat (map (\<lambda>op. [Gate_op ''PhasedXPow'' (qubits op),
                                     Gate_op ''ZPow'' (qubits op)]) c))),
       optimized_for_sycamore = (\<lambda>c. tick (filter (\<lambda>op. gate op \<noteq> ''ZPow'') c)),
       all_operations = (\<lambda>c. tick c) \<rparr>"

definition pauli_x :: matrix where
  "pauli_x = [[0, 1], [1, 0]]"

definition five_qubits :: "qid list" where
  "five_qubits = [GridQubit 0 0, GridQubit 0 1, GridQubit 0 2, GridQubit 0 3, GridQubit 0 4]"

text \<open>
  Three variants of the instance. In the first the optimisation makes the circuit longer (it
  repeats it). In the second the transpiler appends to the file, as a transpiler that keeps a
  cache on disk does. In the third the importer numbers its qubits from the count of library
  calls made so far, so that what it returns depends on the outside state.
\<close>

definition lengthening_libs :: "(toy_world, nat, unit, gate_op list, gate_op) libs" where
  "lengthening_libs = toy_libs \<lparr> optimized_for_sycamore := (\<lambda>c. tick (c @ c)) \<rparr>"



section \<open>Reading operations as a matrix\<close>

text \<open>
  The docstring compares the unitary of the returned operations with the matrix, up to a
  tolerance, reading both in the qubit order of \<^verbatim>\<open>target_qubits\<close>. How Cirq computes the
  unitary of operations is not in the repository: it is a parameter \<open>effect qs ops\<close> of the
  statements below, the matrix of \<open>ops\<close> read in the qubit order \<open>qs\<close>. What is fixed here is
  only what the comparison needs: the matrix CNOT, how a matrix on two qubits reads when the
  two qubits are taken in the other order (the basis states 01 and 10 change places, so rows
  and columns 1 and 2 do), closeness of all entries up to a tolerance, and the same up to a
  global phase.
\<close>

definition cnot :: matrix where
  "cnot = [[1, 0, 0, 0], [0, 1, 0, 0], [0, 0, 0, 1], [0, 0, 1, 0]]"

definition other_qubit_order :: "matrix \<Rightarrow> matrix" where
  "other_qubit_order m = map (\<lambda>i. map (\<lambda>j. m ! i ! j) [0, 2, 1, 3]) [0, 2, 1, 3]"

definition close_to :: "real \<Rightarrow> matrix \<Rightarrow> matrix \<Rightarrow> bool" where
  "close_to tol a b \<longleftrightarrow> list_all2 (list_all2 (\<lambda>x y. cmod (x - y) \<le> tol)) a b"

definition equal_up_to_phase :: "real \<Rightarrow> matrix \<Rightarrow> matrix \<Rightarrow> bool" where
  "equal_up_to_phase tol a b \<longleftrightarrow>
     (\<exists>phase. cmod phase = 1 \<and> close_to tol a (map (map (\<lambda>x. phase * x)) b))"

text \<open>
  One way of reading operations that respects the qubit order, for concrete runs: in the
  order (0, 0), (0, 1) the operations are CNOT, in any other order CNOT with the two qubits
  exchanged.
\<close>

definition toy_effect :: "qid list \<Rightarrow> gate_op list \<Rightarrow> matrix" where
  "toy_effect qs ops =
     (if qs = [GridQubit 0 0, GridQubit 0 1] then cnot else other_qubit_order cnot)"

section \<open>Facts about sequencing and logging\<close>

lemma and_then_Inr:
  "and_then f g w = (Inr r, w') \<longleftrightarrow> (\<exists>x w1. f w = (Inr x, w1) \<and> g x w1 = (Inr r, w'))"
  by (auto simp: and_then_def split: prod.splits sum.splits)


lemma returns_eq: "returns x w = (r, w') \<longleftrightarrow> r = Inr x \<and> w' = w"
  by (auto simp: returns_def)

lemma guard_fires:
  "4 < length target_qubits \<Longrightarrow>
     matrix_to_sycamore_operations libs target_qubits matrix w = (Inr (NotImplemented, []), w)"
  by (simp add: matrix_to_sycamore_operations_def returns_def)

text \<open>
  Below the size guard, the function returns exactly when every step of the pipeline returns,
  and then it returns the choice between the two candidate lists.
\<close>

lemma run_returns_iff:
  assumes "length target_qubits \<le> 4"
  shows "matrix_to_sycamore_operations libs target_qubits matrix w = (Inr r, w') \<longleftrightarrow>
    (\<exists>qz qy. pipeline_run libs (length target_qubits) matrix w qz qy w' \<and>
       r = (Operations (if length qy > length qz then qz else qy), []))"
proof -
  from assms have guard: "\<not> 4 < length target_qubits" by simp
  show ?thesis
  proof
    assume "matrix_to_sycamore_operations libs target_qubits matrix w = (Inr r, w')"
    then show "\<exists>qz qy. pipeline_run libs (length target_qubits) matrix w qz qy w' \<and>
       r = (Operations (if length qy > length qz then qz else qy), [])"
      unfolding matrix_to_sycamore_operations_def pipeline_run_def if_not_P [OF guard]
        and_then_Inr returns_eq Let_def
      apply (elim exE conjE)
      apply (simp only: prod.inject sum.inject)
      apply hypsubst
      apply (intro exI conjI; (assumption | rule refl)?)
      apply simp
      done
  next
    assume "\<exists>qz qy. pipeline_run libs (length target_qubits) matrix w qz qy w' \<and>
       r = (Operations (if length qy > length qz then qz else qy), [])"
    with guard show "matrix_to_sycamore_operations libs target_qubits matrix w = (Inr r, w')"
      unfolding matrix_to_sycamore_operations_def pipeline_run_def
      by (auto simp: and_then_def returns_def Let_def)
  qed
qed


lemma returned_below_guard:
  assumes "matrix_to_sycamore_operations libs target_qubits matrix w = (Inr (Operations ans, anc), w')"
  shows "length target_qubits \<le> 4"
proof (rule ccontr)
  assume "\<not> length target_qubits \<le> 4"
  then have "4 < length target_qubits" by simp
  from guard_fires [OF this, of libs matrix w] assms show False by simp
qed

lemma observes_returns: "observes (returns x) (returns x)"
  by (simp add: observes_def returns_def)

lemma observes_log_call: "observes f (log_call c f)"
  unfolding observes_def
proof (intro allI)
  fix w l
  obtain r w' where f: "f w = (r, w')" by (cases "f w")
  show "\<exists>k. log_call c f (w, l) = (fst (f w), snd (f w), l @ k) \<and>
        (\<forall>c e. (c, Raised e) \<in> set k \<longrightarrow> fst (f w) = Inl e \<and> last k = (c, Raised e)) \<and>
        (\<forall>e. fst (f w) = Inl e \<longrightarrow> (\<exists>c. (c, Raised e) \<in> set k))"
    by (rule exI [of _ "[(c, outcome_of r)]"])
      (auto simp: log_call_def f outcome_of_def split: sum.splits)
qed

lemma observes_and_then:
  assumes p: "observes p p'" and g: "\<And>x. observes (g x) (g' x)"
  shows "observes (and_then p g) (and_then p' g')"
  unfolding observes_def
proof (intro allI)
  fix w l
  from p obtain k where k: "p' (w, l) = (fst (p w), (snd (p w), l @ k))"
    and k_raise: "\<And>c e. (c, Raised e) \<in> set k \<Longrightarrow> fst (p w) = Inl e \<and> last k = (c, Raised e)"
    and k_result: "\<And>e. fst (p w) = Inl e \<Longrightarrow> \<exists>c. (c, Raised e) \<in> set k"
    unfolding observes_def by blast
  obtain r w1 where pw: "p w = (r, w1)" by (cases "p w")
  let ?P = "\<lambda>k. and_then p' g' (w, l) = (fst (and_then p g w), snd (and_then p g w), l @ k) \<and>
        (\<forall>c e. (c, Raised e) \<in> set k \<longrightarrow>
           fst (and_then p g w) = Inl e \<and> last k = (c, Raised e)) \<and>
        (\<forall>e. fst (and_then p g w) = Inl e \<longrightarrow> (\<exists>c. (c, Raised e) \<in> set k))"
  show "\<exists>k. ?P k"
  proof (cases r)
    case (Inl e)
    with k k_raise k_result pw have "?P k"
      by (simp add: and_then_def)
    then show ?thesis ..
  next
    case (Inr x)
    from g [of x] obtain j where j: "g' x (w1, l @ k) = (fst (g x w1), (snd (g x w1), (l @ k) @ j))"
      and j_raise: "\<And>c e. (c, Raised e) \<in> set j \<Longrightarrow> fst (g x w1) = Inl e \<and> last j = (c, Raised e)"
      and j_result: "\<And>e. fst (g x w1) = Inl e \<Longrightarrow> \<exists>c. (c, Raised e) \<in> set j"
      unfolding observes_def by blast
    from k_raise pw Inr have no_raise: "\<And>c e. (c, Raised e) \<notin> set k"
      by fastforce
    have run: "and_then p' g' (w, l) = (fst (and_then p g w), snd (and_then p g w), l @ (k @ j))"
      using k j pw Inr by (simp add: and_then_def)
    have raise: "fst (and_then p g w) = Inl e \<and> last (k @ j) = (c, Raised e)"
      if "(c, Raised e) \<in> set (k @ j)" for c e
    proof -
      from that no_raise have mem: "(c, Raised e) \<in> set j" by simp
      then have "j \<noteq> []" by auto
      with j_raise [OF mem] pw Inr show ?thesis by (simp add: and_then_def)
    qed
    have result: "\<exists>c. (c, Raised e) \<in> set (k @ j)" if "fst (and_then p g w) = Inl e" for e
    proof -
      from that pw Inr have "fst (g x w1) = Inl e" by (simp add: and_then_def)
      from j_result [OF this] show ?thesis by auto
    qed
    from run raise result have "?P (k @ j)" by blast
    then show ?thesis ..
  qed
qed

lemma observes_run:
  "observes (matrix_to_sycamore_operations libs target_qubits matrix)
     (matrix_to_sycamore_operations (logged libs) target_qubits matrix)"
  unfolding matrix_to_sycamore_operations_def
  by (auto simp: logged_def Let_def
      intro!: observes_and_then observes_log_call observes_returns)

text \<open>Wrapping the libraries changes neither the result nor the outside state of a run.\<close>

lemma logged_run:
  "matrix_to_sycamore_operations (logged libs) target_qubits matrix (w, []) =
     (fst (matrix_to_sycamore_operations libs target_qubits matrix w),
      snd (matrix_to_sycamore_operations libs target_qubits matrix w),
      calls_of libs target_qubits matrix w)"
  using observes_run [of libs target_qubits matrix]
  unfolding observes_def calls_of_def
  by (metis append_Nil snd_conv)

lemma raised_is_result:
  assumes "(c, Raised e) \<in> set (calls_of libs target_qubits matrix w)"
  shows "fst (matrix_to_sycamore_operations libs target_qubits matrix w) = Inl e"
    and "last (calls_of libs target_qubits matrix w) = (c, Raised e)"
proof -
  from observes_run [of libs target_qubits matrix]
  obtain k where k: "matrix_to_sycamore_operations (logged libs) target_qubits matrix (w, []) =
      (fst (matrix_to_sycamore_operations libs target_qubits matrix w),
       (snd (matrix_to_sycamore_operations libs target_qubits matrix w), [] @ k))"
    and k_raise: "\<And>c e. (c, Raised e) \<in> set k \<Longrightarrow>
       fst (matrix_to_sycamore_operations libs target_qubits matrix w) = Inl e
       \<and> last k = (c, Raised e)"
    unfolding observes_def by blast
  from k have "calls_of libs target_qubits matrix w = k"
    by (simp add: calls_of_def)
  with assms k_raise
  show "fst (matrix_to_sycamore_operations libs target_qubits matrix w) = Inl e"
    and "last (calls_of libs target_qubits matrix w) = (c, Raised e)"
    by auto
qed

lemma result_was_raised:
  assumes "fst (matrix_to_sycamore_operations libs target_qubits matrix w) = Inl e"
  shows "\<exists>c. (c, Raised e) \<in> set (calls_of libs target_qubits matrix w)"
proof -
  from observes_run [of libs target_qubits matrix]
  obtain k where k: "matrix_to_sycamore_operations (logged libs) target_qubits matrix (w, []) =
      (fst (matrix_to_sycamore_operations libs target_qubits matrix w),
       (snd (matrix_to_sycamore_operations libs target_qubits matrix w), [] @ k))"
    and k_result: "\<And>e. fst (matrix_to_sycamore_operations libs target_qubits matrix w) = Inl e
       \<Longrightarrow> \<exists>c. (c, Raised e) \<in> set k"
    unfolding observes_def by blast
  from k have "calls_of libs target_qubits matrix w = k"
    by (simp add: calls_of_def)
  with assms k_result show ?thesis by auto
qed

text \<open>The log of a pipeline in which every step returns.\<close>

lemma logged_step:
  "log_call c f (w, l) = (Inr x, (w', l')) \<longleftrightarrow> f w = (Inr x, w') \<and> l' = l @ [(c, Returned)]"
  by (auto simp: log_call_def outcome_of_def split: prod.splits)

lemma logged_pipeline_run:
  assumes "pipeline_run (logged libs) n matrix (w, l) qz qy (w', l')"
  shows "l' = l @ pipeline_calls n matrix"
  using assms unfolding pipeline_run_def logged_def pipeline_calls_def
  by (clarsimp simp: logged_step)

text \<open>
  Below the size guard, the library calls of a run, whether it returns or raises, start with
  the request for a circuit and are an initial segment of the pipeline's calls.
\<close>

lemma calls_prefix:
  assumes "length target_qubits \<le> 4"
  shows "\<exists>oc made rest.
     calls_of libs target_qubits matrix w = (Call_QuantumCircuit (length target_qubits), oc) # made
     \<and> map fst (pipeline_calls (length target_qubits) matrix) =
         map fst (calls_of libs target_qubits matrix w) @ rest"
proof -
  from assms have guard: "\<not> 4 < length target_qubits" by simp
  show ?thesis
    unfolding calls_of_def matrix_to_sycamore_operations_def if_not_P [OF guard]
    by (simp add: logged_def log_call_def and_then_def returns_def Let_def pipeline_calls_def
        outcome_of_def split: prod.splits sum.splits)
qed

text \<open>A run stops before the last call of the pipeline only when a call raises.\<close>

lemma calls_complete_or_raised:
  assumes "length target_qubits \<le> 4"
  shows "calls_of libs target_qubits matrix w = pipeline_calls (length target_qubits) matrix
    \<or> (\<exists>c e. last (calls_of libs target_qubits matrix w) = (c, Raised e)
          \<and> (c, Raised e) \<in> set (calls_of libs target_qubits matrix w))"
proof -
  from assms have guard: "\<not> 4 < length target_qubits" by simp
  show ?thesis
    unfolding calls_of_def matrix_to_sycamore_operations_def if_not_P [OF guard]
    by (simp add: logged_def log_call_def and_then_def returns_def Let_def pipeline_calls_def
        outcome_of_def split: prod.splits sum.splits)
qed

lemma no_sentinel_below_guard:
  assumes "length target_qubits \<le> 4"
  shows "fst (matrix_to_sycamore_operations libs target_qubits matrix w) \<noteq>
    Inr (NotImplemented, anc)"
proof
  assume sentinel: "fst (matrix_to_sycamore_operations libs target_qubits matrix w) =
    Inr (NotImplemented, anc)"
  obtain r w' where "matrix_to_sycamore_operations libs target_qubits matrix w = (r, w')"
    by (cases "matrix_to_sycamore_operations libs target_qubits matrix w")
  with sentinel have "matrix_to_sycamore_operations libs target_qubits matrix w =
      (Inr (NotImplemented, anc), w')"
    by simp
  then obtain qz qy where
    "(NotImplemented, anc) = (Operations (if length qy > length qz then qz else qy), [])"
    unfolding run_returns_iff [OF assms] by blast
  then show False by simp
qed




text \<open>Closeness of matrices, entry by entry.\<close>

lemma close_to_entry:
  assumes "close_to tol a b" and "i < length b" and "j < length (b ! i)"
  shows "cmod (a ! i ! j - b ! i ! j) \<le> tol"
proof -
  from assms(1) have rows: "list_all2 (list_all2 (\<lambda>x y. cmod (x - y) \<le> tol)) a b"
    by (simp add: close_to_def)
  from rows assms(2) have "list_all2 (\<lambda>x y. cmod (x - y) \<le> tol) (a ! i) (b ! i)"
    by (simp add: list_all2_conv_all_nth)
  with assms(3) show ?thesis
    by (simp add: list_all2_conv_all_nth)
qed

lemma close_is_up_to_phase: "close_to tol a b \<Longrightarrow> equal_up_to_phase tol a b"
  unfolding equal_up_to_phase_def
  by (rule exI [of _ 1]) (simp add: map_idI)

text \<open>
  No matrix is CNOT in both qubit orders, not even up to a global phase: its entry (2, 2)
  would be close to 0 in one order and, being the entry (1, 1) of the other order, close to
  a number of modulus 1.
\<close>

lemma not_both_orders:
  assumes tol: "tol < 1 / 2"
    and one: "equal_up_to_phase tol a cnot"
    and other: "equal_up_to_phase tol (other_qubit_order a) cnot"
  shows False
proof -
  from one obtain p where p: "cmod p = 1" and wp: "close_to tol a (map (map (\<lambda>x. p * x)) cnot)"
    unfolding equal_up_to_phase_def by blast
  from other obtain q where q: "cmod q = 1"
    and wq: "close_to tol (other_qubit_order a) (map (map (\<lambda>x. q * x)) cnot)"
    unfolding equal_up_to_phase_def by blast
  from close_to_entry [OF wp, of 2 2] have small: "cmod (a ! 2 ! 2) \<le> tol"
    by (simp add: cnot_def)
  from close_to_entry [OF wq, of 1 1] have "cmod (other_qubit_order a ! 1 ! 1 - q) \<le> tol"
    by (simp add: cnot_def)
  then have near: "cmod (a ! 2 ! 2 - q) \<le> tol"
    by (simp add: other_qubit_order_def)
  have "cmod q \<le> cmod (a ! 2 ! 2) + cmod (q - a ! 2 ! 2)"
    by (rule norm_triangle_sub)
  also have "cmod (q - a ! 2 ! 2) = cmod (a ! 2 ! 2 - q)"
    by (rule norm_minus_commute)
  finally have "1 \<le> tol + tol" using q small near by simp
  with tol show False by simp
qed

section \<open>Concrete runs\<close>

lemma toy_run:
  "matrix_to_sycamore_operations toy_libs [GridQubit 0 0] pauli_x (0, ''data'') =
     (Inr (Operations [Gate_op ''PhasedXPow'' [NamedQubit ''q_0'']], []), (12, ''data''))"
  by (simp add: matrix_to_sycamore_operations_def toy_libs_def tick_def pauli_x_def
      and_then_def returns_def)


lemma toy_raise_calls:
  "calls_of toy_libs [GridQubit 0 0] [[1]] (0, ''data'') =
     [(Call_QuantumCircuit 1, Returned),
      (Call_unitary [[1]] [0], Raised (Exception ''Input matrix has the wrong dimension''))]"
  by (simp add: calls_of_def matrix_to_sycamore_operations_def toy_libs_def tick_def
      and_then_def returns_def logged_def log_call_def outcome_of_def)

lemma toy_five:
  "matrix_to_sycamore_operations toy_libs five_qubits pauli_x (0, ''data'') =
     (Inr (NotImplemented, []), (0, ''data''))"
  by (simp add: matrix_to_sycamore_operations_def five_qubits_def returns_def)


lemma toy_empty:
  "matrix_to_sycamore_operations toy_libs ([] :: qid list) [[1]] (0, ''data'') =
     (Inr (Operations [], []), (12, ''data''))"
  by (simp add: matrix_to_sycamore_operations_def toy_libs_def tick_def and_then_def
      returns_def)

lemma toy_pipeline_run:
  "pipeline_run toy_libs (length [GridQubit 0 0]) pauli_x (0, ''data'')
     [Gate_op ''PhasedXPow'' [NamedQubit ''q_0''], Gate_op ''ZPow'' [NamedQubit ''q_0'']]
     [Gate_op ''PhasedXPow'' [NamedQubit ''q_0'']]
     (12, ''data'')"
  by (simp add: pipeline_run_def toy_libs_def tick_def pauli_x_def)

lemma lengthening_pipeline_run:
  "pipeline_run lengthening_libs (length [GridQubit 0 0]) pauli_x (0, ''data'')
     [Gate_op ''PhasedXPow'' [NamedQubit ''q_0''], Gate_op ''ZPow'' [NamedQubit ''q_0'']]
     [Gate_op ''PhasedXPow'' [NamedQubit ''q_0''], Gate_op ''ZPow'' [NamedQubit ''q_0''],
      Gate_op ''PhasedXPow'' [NamedQubit ''q_0''], Gate_op ''ZPow'' [NamedQubit ''q_0'']]
     (12, ''data'')"
  by (simp add: pipeline_run_def lengthening_libs_def toy_libs_def tick_def pauli_x_def)


lemma toy_cnot_run:
  "matrix_to_sycamore_operations toy_libs [GridQubit 0 0, GridQubit 0 1] cnot (0, ''data'') =
     (Inr (Operations [Gate_op ''PhasedXPow'' [NamedQubit ''q_0''],
                       Gate_op ''PhasedXPow'' [NamedQubit ''q_1'']], []), (12, ''data''))"
  by (simp add: matrix_to_sycamore_operations_def toy_libs_def tick_def cnot_def
      and_then_def returns_def)

lemma toy_effect_order:
  "toy_effect [GridQubit 0 1, GridQubit 0 0] ops =
     other_qubit_order (toy_effect [GridQubit 0 0, GridQubit 0 1] ops)"
  by (simp add: toy_effect_def)

lemma close_cnot: "close_to (1 / 100000000) cnot cnot"
  by (simp add: close_to_def cnot_def)

section \<open>The size guard\<close>

text \<open>
  C2. With more than four target qubits the function returns the \<^verbatim>\<open>NotImplemented\<close>
  placeholder and an empty ancilla list, whatever the matrix and whatever the libraries do,
  and it makes no library call: the outside state is the one the call started in and the log
  of library calls is empty.
\<close>

theorem size_guard:
  assumes "4 < length target_qubits"
  shows "matrix_to_sycamore_operations libs target_qubits matrix w = (Inr (NotImplemented, []), w)
    \<and> calls_of libs target_qubits matrix w = []"
  using assms by (simp add: matrix_to_sycamore_operations_def calls_of_def returns_def)

theorem size_guard_witness:
  "4 < length five_qubits
   \<and> matrix_to_sycamore_operations toy_libs five_qubits pauli_x (0, ''data'') =
       (Inr (NotImplemented, []), (0, ''data''))
   \<and> calls_of toy_libs five_qubits pauli_x (0, ''data'') = []"
proof -
  have five: "4 < length five_qubits" by (simp add: five_qubits_def)
  from size_guard [OF five, of toy_libs pauli_x "(0, ''data'')"] five show ?thesis by simp
qed

text \<open>
  C10. The placeholder is returned only when there are more than four target qubits. With
  no target qubit at all the guard does not fire: the result is not the placeholder, and the
  run is the pipeline for width 0. Its first call asks the first library for a circuit of
  width 0; it returns exactly when all twelve calls of the pipeline return, each in the state
  its predecessor left, and then it has made all twelve; it stops before the last call only
  when a library call raises, and then that exception is its outcome.
\<close>

theorem sentinel_only_above_four:
  "(fst (matrix_to_sycamore_operations libs target_qubits matrix w) = Inr (NotImplemented, anc)
      \<longrightarrow> 4 < length target_qubits)
   \<and> fst (matrix_to_sycamore_operations libs [] matrix w) \<noteq> Inr (NotImplemented, anc)
   \<and> (\<exists>oc rest. calls_of libs ([] :: 'q list) matrix w = (Call_QuantumCircuit 0, oc) # rest)
   \<and> (matrix_to_sycamore_operations libs ([] :: 'q list) matrix w = (Inr r, w') \<longleftrightarrow>
        (\<exists>qz qy. pipeline_run libs 0 matrix w qz qy w' \<and>
           r = (Operations (if length qy > length qz then qz else qy), [])))
   \<and> (matrix_to_sycamore_operations libs ([] :: 'q list) matrix w = (Inr r, w') \<longrightarrow>
        calls_of libs ([] :: 'q list) matrix w = pipeline_calls 0 matrix)
   \<and> (calls_of libs ([] :: 'q list) matrix w = pipeline_calls 0 matrix
        \<or> (\<exists>c e. last (calls_of libs ([] :: 'q list) matrix w) = (c, Raised e)
              \<and> fst (matrix_to_sycamore_operations libs ([] :: 'q list) matrix w) = Inl e))"
  for target_qubits :: "'q list"
proof (intro conjI impI)
  have empty: "length ([] :: 'q list) \<le> 4" by simp
  show "4 < length target_qubits"
    if "fst (matrix_to_sycamore_operations libs target_qubits matrix w) = Inr (NotImplemented, anc)"
  proof (rule ccontr)
    assume "\<not> 4 < length target_qubits"
    then have "length target_qubits \<le> 4" by simp
    from no_sentinel_below_guard [OF this, of libs matrix w anc] that show False by simp
  qed
  show "fst (matrix_to_sycamore_operations libs [] matrix w) \<noteq> Inr (NotImplemented, anc)"
    by (rule no_sentinel_below_guard) simp
  from calls_prefix [of "[] :: 'q list" libs matrix w]
  show "\<exists>oc rest. calls_of libs ([] :: 'q list) matrix w = (Call_QuantumCircuit 0, oc) # rest"
    by auto
  from run_returns_iff [OF empty, of libs matrix w r w']
  show "matrix_to_sycamore_operations libs ([] :: 'q list) matrix w = (Inr r, w') \<longleftrightarrow>
        (\<exists>qz qy. pipeline_run libs 0 matrix w qz qy w' \<and>
           r = (Operations (if length qy > length qz then qz else qy), []))"
    by simp
  show "calls_of libs ([] :: 'q list) matrix w = pipeline_calls 0 matrix"
    if returned: "matrix_to_sycamore_operations libs ([] :: 'q list) matrix w = (Inr r, w')"
  proof -
    from returned logged_run [of libs "[] :: 'q list" matrix w]
    have "matrix_to_sycamore_operations (logged libs) ([] :: 'q list) matrix (w, []) =
        (Inr r, (w', calls_of libs ([] :: 'q list) matrix w))"
      by simp
    then obtain qz qy where "pipeline_run (logged libs) (length ([] :: 'q list)) matrix (w, []) qz qy
        (w', calls_of libs ([] :: 'q list) matrix w)"
      unfolding run_returns_iff [OF empty] by blast
    from logged_pipeline_run [OF this] show ?thesis by simp
  qed
  from calls_complete_or_raised [OF empty, of libs matrix w]
  show "calls_of libs ([] :: 'q list) matrix w = pipeline_calls 0 matrix
        \<or> (\<exists>c e. last (calls_of libs ([] :: 'q list) matrix w) = (c, Raised e)
              \<and> fst (matrix_to_sycamore_operations libs ([] :: 'q list) matrix w) = Inl e)"
    using raised_is_result(1) [of _ _ libs "[] :: 'q list" matrix w] by auto
qed

theorem sentinel_only_above_four_witness:
  "fst (matrix_to_sycamore_operations toy_libs five_qubits [[1]] (0, ''data'')) =
      Inr (NotImplemented, [])
   \<and> 4 < length five_qubits
   \<and> matrix_to_sycamore_operations toy_libs ([] :: qid list) [[1]] (0, ''data'') =
       (Inr (Operations [], []), (12, ''data''))
   \<and> calls_of toy_libs ([] :: qid list) [[1]] (0, ''data'') = pipeline_calls 0 [[1]]
   \<and> length (calls_of toy_libs ([] :: qid list) [[1]] (0, ''data'')) = 12"
proof -
  have guard: "fst (matrix_to_sycamore_operations toy_libs five_qubits [[1]] (0, ''data'')) =
      Inr (NotImplemented, [])"
    by (simp add: matrix_to_sycamore_operations_def five_qubits_def returns_def)
  from sentinel_only_above_four [of toy_libs five_qubits "[[1]]" "(0, ''data'')" "[]"
      "(Operations [], [])" "(12, ''data'')"] guard toy_empty
  show ?thesis by (simp add: pipeline_calls_def)
qed

section \<open>The returned pair\<close>

text \<open>
  C5. Whenever the function returns a pair, on the guard's path and on the pipeline's path
  alike, the second component is the empty list: no ancilla qubit is allocated.
\<close>

theorem ancilla_list_empty:
  assumes "matrix_to_sycamore_operations libs target_qubits matrix w = (Inr (ops, anc), w')"
  shows "anc = []"
proof (cases "4 < length target_qubits")
  case True
  from guard_fires [OF True, of libs matrix w] assms show ?thesis by simp
next
  case False
  then have "length target_qubits \<le> 4" by simp
  from run_returns_iff [OF this, of libs matrix w "(ops, anc)" w'] assms show ?thesis by auto
qed

theorem ancilla_list_empty_witness:
  "matrix_to_sycamore_operations toy_libs [GridQubit 0 0] pauli_x (0, ''data'') =
     (Inr (Operations [Gate_op ''PhasedXPow'' [NamedQubit ''q_0'']], []), (12, ''data''))
   \<and> ([] :: qid list) = []"
  using toy_run ancilla_list_empty [OF toy_run] by simp

text \<open>
  C3. For at most four target qubits, when the calls of the pipeline return, the gate-set
  conversion returning the list \<open>qz\<close> and the optimised circuit having the operations \<open>qy\<close>,
  the function returns the shorter of the two lists: \<open>qz\<close> when \<open>qy\<close> is strictly longer,
  \<open>qy\<close> otherwise, so a tie gives the optimised list. Conversely, a list of operations that
  the function returns arises this way, and it is never longer than \<open>qz\<close>.
\<close>

theorem shorter_candidate_returned:
  "(length target_qubits \<le> 4 \<and> pipeline_run libs (length target_qubits) matrix w qz qy w' \<longrightarrow>
      matrix_to_sycamore_operations libs target_qubits matrix w =
        (Inr (Operations (if length qy > length qz then qz else qy), []), w')
      \<and> (length qz < length qy \<longrightarrow>
           matrix_to_sycamore_operations libs target_qubits matrix w = (Inr (Operations qz, []), w'))
      \<and> (length qy \<le> length qz \<longrightarrow>
           matrix_to_sycamore_operations libs target_qubits matrix w = (Inr (Operations qy, []), w')))
   \<and> (matrix_to_sycamore_operations libs target_qubits matrix w = (Inr (Operations ans, anc), w') \<longrightarrow>
      (\<exists>qz qy. pipeline_run libs (length target_qubits) matrix w qz qy w'
        \<and> ans = (if length qy > length qz then qz else qy)
        \<and> (length qz < length qy \<longrightarrow> ans = qz)
        \<and> (length qy \<le> length qz \<longrightarrow> ans = qy)
        \<and> length ans = min (length qz) (length qy)
        \<and> length ans \<le> length qz))"
proof (intro conjI impI)
  assume run: "length target_qubits \<le> 4 \<and> pipeline_run libs (length target_qubits) matrix w qz qy w'"
  then have below: "length target_qubits \<le> 4" by simp
  from run show returned: "matrix_to_sycamore_operations libs target_qubits matrix w =
      (Inr (Operations (if length qy > length qz then qz else qy), []), w')"
    unfolding run_returns_iff [OF below] by blast
  show "matrix_to_sycamore_operations libs target_qubits matrix w = (Inr (Operations qz, []), w')"
    if "length qz < length qy"
    using returned that by simp
  show "matrix_to_sycamore_operations libs target_qubits matrix w = (Inr (Operations qy, []), w')"
    if "length qy \<le> length qz"
    using returned that by simp
next
  assume returned: "matrix_to_sycamore_operations libs target_qubits matrix w =
    (Inr (Operations ans, anc), w')"
  from returned_below_guard [OF returned] have "length target_qubits \<le> 4" .
  from run_returns_iff [OF this, of libs matrix w "(Operations ans, anc)" w'] returned
  obtain qz qy where run: "pipeline_run libs (length target_qubits) matrix w qz qy w'"
    and ans: "ans = (if length qy > length qz then qz else qy)"
    by auto
  from ans have "(length qz < length qy \<longrightarrow> ans = qz) \<and> (length qy \<le> length qz \<longrightarrow> ans = qy)
    \<and> length ans = min (length qz) (length qy) \<and> length ans \<le> length qz"
    by auto
  with run ans show "\<exists>qz qy. pipeline_run libs (length target_qubits) matrix w qz qy w'
        \<and> ans = (if length qy > length qz then qz else qy)
        \<and> (length qz < length qy \<longrightarrow> ans = qz)
        \<and> (length qy \<le> length qz \<longrightarrow> ans = qy)
        \<and> length ans = min (length qz) (length qy)
        \<and> length ans \<le> length qz"
    by blast
qed

text \<open>
  Both branches on concrete runs: with the small instance the optimised list is the shorter
  one and is returned; with the instance whose optimisation lengthens the circuit the
  converted list is returned.
\<close>

theorem shorter_candidate_returned_witness:
  "length [GridQubit 0 0] \<le> 4
   \<and> pipeline_run toy_libs (length [GridQubit 0 0]) pauli_x (0, ''data'')
       [Gate_op ''PhasedXPow'' [NamedQubit ''q_0''], Gate_op ''ZPow'' [NamedQubit ''q_0'']]
       [Gate_op ''PhasedXPow'' [NamedQubit ''q_0'']]
       (12, ''data'')
   \<and> matrix_to_sycamore_operations toy_libs [GridQubit 0 0] pauli_x (0, ''data'') =
       (Inr (Operations [Gate_op ''PhasedXPow'' [NamedQubit ''q_0'']], []), (12, ''data''))
   \<and> pipeline_run lengthening_libs (length [GridQubit 0 0]) pauli_x (0, ''data'')
       [Gate_op ''PhasedXPow'' [NamedQubit ''q_0''], Gate_op ''ZPow'' [NamedQubit ''q_0'']]
       [Gate_op ''PhasedXPow'' [NamedQubit ''q_0''], Gate_op ''ZPow'' [NamedQubit ''q_0''],
        Gate_op ''PhasedXPow'' [NamedQubit ''q_0''], Gate_op ''ZPow'' [NamedQubit ''q_0'']]
       (12, ''data'')
   \<and> matrix_to_sycamore_operations lengthening_libs [GridQubit 0 0] pauli_x (0, ''data'') =
       (Inr (Operations [Gate_op ''PhasedXPow'' [NamedQubit ''q_0''],
                         Gate_op ''ZPow'' [NamedQubit ''q_0'']], []), (12, ''data''))"
proof -
  have one: "length [GridQubit 0 0] \<le> 4" by simp
  from shorter_candidate_returned [of "[GridQubit 0 0]" toy_libs pauli_x "(0, ''data'')"
      "[Gate_op ''PhasedXPow'' [NamedQubit ''q_0''], Gate_op ''ZPow'' [NamedQubit ''q_0'']]"
      "[Gate_op ''PhasedXPow'' [NamedQubit ''q_0'']]" "(12, ''data'')"]
    one toy_pipeline_run
  have shorter: "matrix_to_sycamore_operations toy_libs [GridQubit 0 0] pauli_x (0, ''data'') =
       (Inr (Operations [Gate_op ''PhasedXPow'' [NamedQubit ''q_0'']], []), (12, ''data''))"
    by simp
  from shorter_candidate_returned [of "[GridQubit 0 0]" lengthening_libs pauli_x "(0, ''data'')"
      "[Gate_op ''PhasedXPow'' [NamedQubit ''q_0''], Gate_op ''ZPow'' [NamedQubit ''q_0'']]"
      "[Gate_op ''PhasedXPow'' [NamedQubit ''q_0''], Gate_op ''ZPow'' [NamedQubit ''q_0''],
        Gate_op ''PhasedXPow'' [NamedQubit ''q_0''], Gate_op ''ZPow'' [NamedQubit ''q_0'']]"
      "(12, ''data'')"]
    one lengthening_pipeline_run
  have fallback: "matrix_to_sycamore_operations lengthening_libs [GridQubit 0 0] pauli_x (0, ''data'') =
       (Inr (Operations [Gate_op ''PhasedXPow'' [NamedQubit ''q_0''],
                         Gate_op ''ZPow'' [NamedQubit ''q_0'']], []), (12, ''data''))"
    by simp
  from one toy_pipeline_run shorter lengthening_pipeline_run fallback show ?thesis
    by (intro conjI)
qed

section \<open>The pipeline\<close>

text \<open>
  C6. For at most four target qubits the steps run in the specification's order: build the
  circuit from the matrix, transpile it to \<^verbatim>\<open>cx\<close> and \<^verbatim>\<open>u3\<close>, serialise it and parse the text
  into the second library's circuit, convert to the hardware gate set, optimise. The function
  returns exactly when every step of \<open>pipeline_run\<close> returns, each step starting in the state
  its predecessor left; there the optimisation is called on the circuit built from the list
  \<open>qz\<close> that the conversion returned. A run that returns has made exactly the calls of
  \<open>pipeline_calls\<close>, in that order, and the calls of any run, also one that raises, are an
  initial segment of them.
\<close>

theorem pipeline_steps_in_order:
  assumes "length target_qubits \<le> 4"
  shows "(matrix_to_sycamore_operations libs target_qubits matrix w = (Inr r, w') \<longleftrightarrow>
      (\<exists>qz qy. pipeline_run libs (length target_qubits) matrix w qz qy w' \<and>
         r = (Operations (if length qy > length qz then qz else qy), [])))
    \<and> (matrix_to_sycamore_operations libs target_qubits matrix w = (Inr r, w') \<longrightarrow>
         calls_of libs target_qubits matrix w = pipeline_calls (length target_qubits) matrix)
    \<and> (\<exists>rest. map fst (pipeline_calls (length target_qubits) matrix) =
         map fst (calls_of libs target_qubits matrix w) @ rest)"
proof (intro conjI impI)
  show "matrix_to_sycamore_operations libs target_qubits matrix w = (Inr r, w') \<longleftrightarrow>
      (\<exists>qz qy. pipeline_run libs (length target_qubits) matrix w qz qy w' \<and>
         r = (Operations (if length qy > length qz then qz else qy), []))"
    by (rule run_returns_iff [OF assms])
next
  assume "matrix_to_sycamore_operations libs target_qubits matrix w = (Inr r, w')"
  with logged_run [of libs target_qubits matrix w]
  have "matrix_to_sycamore_operations (logged libs) target_qubits matrix (w, []) =
      (Inr r, (w', calls_of libs target_qubits matrix w))"
    by simp
  then obtain qz qy where "pipeline_run (logged libs) (length target_qubits) matrix (w, []) qz qy
      (w', calls_of libs target_qubits matrix w)"
    unfolding run_returns_iff [OF assms] by blast
  from logged_pipeline_run [OF this]
  show "calls_of libs target_qubits matrix w = pipeline_calls (length target_qubits) matrix"
    by simp
next
  from calls_prefix [OF assms, of libs matrix w]
  show "\<exists>rest. map fst (pipeline_calls (length target_qubits) matrix) =
         map fst (calls_of libs target_qubits matrix w) @ rest"
    by blast
qed

theorem pipeline_steps_in_order_witness:
  "length [GridQubit 0 0] \<le> 4
   \<and> matrix_to_sycamore_operations toy_libs [GridQubit 0 0] pauli_x (0, ''data'') =
       (Inr (Operations [Gate_op ''PhasedXPow'' [NamedQubit ''q_0'']], []), (12, ''data''))
   \<and> calls_of toy_libs [GridQubit 0 0] pauli_x (0, ''data'') = pipeline_calls 1 pauli_x"
proof -
  have one: "length [GridQubit 0 0] \<le> 4" by simp
  from pipeline_steps_in_order [OF one, of toy_libs pauli_x "(0, ''data'')"
      "(Operations [Gate_op ''PhasedXPow'' [NamedQubit ''q_0'']], [])" "(12, ''data'')"]
    toy_run
  show ?thesis by simp
qed

section \<open>Exceptions\<close>

text \<open>
  C7. The function has no \<^verbatim>\<open>try\<close>. An exception that a library call raises during a run is
  the outcome of the run, unchanged, and the call that raised it is the last library call of
  the run (nothing is retried and nothing runs after it). Conversely, an exception that comes
  out of the function was raised by one of its library calls.
\<close>

theorem library_exceptions_propagate:
  "((c, Raised e) \<in> set (calls_of libs target_qubits matrix w) \<longrightarrow>
      fst (matrix_to_sycamore_operations libs target_qubits matrix w) = Inl e
      \<and> last (calls_of libs target_qubits matrix w) = (c, Raised e))
   \<and> (fst (matrix_to_sycamore_operations libs target_qubits matrix w) = Inl e' \<longrightarrow>
      (\<exists>c'. (c', Raised e') \<in> set (calls_of libs target_qubits matrix w)))"
  using raised_is_result [of c e libs target_qubits matrix w]
    result_was_raised [of libs target_qubits matrix w e']
  by blast

theorem library_exceptions_propagate_witness:
  "(Call_unitary [[1]] [0], Raised (Exception ''Input matrix has the wrong dimension''))
      \<in> set (calls_of toy_libs [GridQubit 0 0] [[1]] (0, ''data''))
   \<and> fst (matrix_to_sycamore_operations toy_libs [GridQubit 0 0] [[1]] (0, ''data'')) =
       Inl (Exception ''Input matrix has the wrong dimension'')
   \<and> last (calls_of toy_libs [GridQubit 0 0] [[1]] (0, ''data'')) =
       (Call_unitary [[1]] [0], Raised (Exception ''Input matrix has the wrong dimension''))"
proof -
  have raised: "(Call_unitary [[1]] [0], Raised (Exception ''Input matrix has the wrong dimension''))
      \<in> set (calls_of toy_libs [GridQubit 0 0] [[1]] (0, ''data''))"
    by (simp add: toy_raise_calls)
  from library_exceptions_propagate [of "Call_unitary [[1]] [0]"
      "Exception ''Input matrix has the wrong dimension''" toy_libs "[GridQubit 0 0]" "[[1]]"
      "(0, ''data'')"] raised
  show ?thesis by blast
qed

section \<open>The target qubits\<close>

text \<open>
  C4. The docstring promises operations that act on the qubits of \<^verbatim>\<open>target_qubits\<close>. The
  function, however, hands the libraries only the length of that list: replacing every target
  qubit by any other qubit changes nothing in the run, neither the result nor the library
  calls nor the outside state. So the returned operations act on whatever qubits the QASM
  importer makes up, and cannot follow the caller's choice of qubits.
\<close>

theorem operations_ignore_target_qubits:
  "matrix_to_sycamore_operations libs (map h target_qubits) matrix w =
     matrix_to_sycamore_operations libs target_qubits matrix w
   \<and> calls_of libs (map h target_qubits) matrix w = calls_of libs target_qubits matrix w"
  by (simp add: matrix_to_sycamore_operations_def calls_of_def)

text \<open>
  On the small library instance, whose importer names its qubits as Cirq's does: asked for
  operations on the grid qubit (0, 0), the function returns an operation on the named qubit
  \<^verbatim>\<open>q_0\<close>, and the same operation when asked for the grid qubit (5, 5).
\<close>

lemma toy_operation_off_target:
  "matrix_to_sycamore_operations toy_libs [GridQubit 0 0] pauli_x (0, ''data'') =
     (Inr (Operations [Gate_op ''PhasedXPow'' [NamedQubit ''q_0'']], []), (12, ''data''))
   \<and> matrix_to_sycamore_operations toy_libs [GridQubit 5 5] pauli_x (0, ''data'') =
     (Inr (Operations [Gate_op ''PhasedXPow'' [NamedQubit ''q_0'']], []), (12, ''data''))
   \<and> NamedQubit ''q_0'' \<notin> set [GridQubit 0 0]
   \<and> NamedQubit ''q_0'' \<notin> set [GridQubit 5 5]"
  by (simp add: matrix_to_sycamore_operations_def toy_libs_def tick_def pauli_x_def
      and_then_def returns_def)

text \<open>
  C1. The docstring promises operations whose unitary, read in the qubit order of
  \<^verbatim>\<open>target_qubits\<close>, equals the matrix up to a tolerance. The function cannot keep that
  promise for a matrix that tells its two qubits apart, such as CNOT: it hands the libraries
  only the number of target qubits, so for the qubits \<open>a\<close>, \<open>b\<close> and for the same qubits in the
  order \<open>b\<close>, \<open>a\<close> it returns the same operations. Read in the one order and in the other, the
  same operations give two matrices that differ by the exchange of the two qubits, and CNOT is
  not the same after that exchange. So whatever the libraries are, and for every tolerance
  below one half, the operations returned are not within the tolerance of CNOT for both calls,
  not even up to a global phase.
\<close>

theorem round_trip_ignores_qubit_order:
  assumes run: "matrix_to_sycamore_operations libs [a, b] cnot w = (Inr (Operations ops, anc), w')"
    and order: "effect [b, a] ops = other_qubit_order (effect [a, b] ops)"
    and tol: "tol < 1 / 2"
  shows "matrix_to_sycamore_operations libs [b, a] cnot w = (Inr (Operations ops, anc), w')
    \<and> \<not> (close_to tol (effect [a, b] ops) cnot \<and> close_to tol (effect [b, a] ops) cnot)
    \<and> \<not> (equal_up_to_phase tol (effect [a, b] ops) cnot
          \<and> equal_up_to_phase tol (effect [b, a] ops) cnot)"
proof (intro conjI)
  from run show "matrix_to_sycamore_operations libs [b, a] cnot w = (Inr (Operations ops, anc), w')"
    by (simp add: matrix_to_sycamore_operations_def)
  show phase: "\<not> (equal_up_to_phase tol (effect [a, b] ops) cnot
          \<and> equal_up_to_phase tol (effect [b, a] ops) cnot)"
    using not_both_orders [OF tol, of "effect [a, b] ops"] order by auto
  then show "\<not> (close_to tol (effect [a, b] ops) cnot \<and> close_to tol (effect [b, a] ops) cnot)"
    using close_is_up_to_phase by blast
qed

text \<open>
  On the small instance, with a reading of the operations that makes the call for the order
  (0, 0), (0, 1) right: the call for the order (0, 1), (0, 0) returns the same operations and
  is wrong.
\<close>

theorem round_trip_ignores_qubit_order_witness:
  "matrix_to_sycamore_operations toy_libs [GridQubit 0 0, GridQubit 0 1] cnot (0, ''data'') =
     (Inr (Operations [Gate_op ''PhasedXPow'' [NamedQubit ''q_0''],
                       Gate_op ''PhasedXPow'' [NamedQubit ''q_1'']], []), (12, ''data''))
   \<and> (1 / 100000000 :: real) < 1 / 2
   \<and> matrix_to_sycamore_operations toy_libs [GridQubit 0 1, GridQubit 0 0] cnot (0, ''data'') =
     (Inr (Operations [Gate_op ''PhasedXPow'' [NamedQubit ''q_0''],
                       Gate_op ''PhasedXPow'' [NamedQubit ''q_1'']], []), (12, ''data''))
   \<and> close_to (1 / 100000000)
        (toy_effect [GridQubit 0 0, GridQubit 0 1]
           [Gate_op ''PhasedXPow'' [NamedQubit ''q_0''], Gate_op ''PhasedXPow'' [NamedQubit ''q_1'']])
        cnot
   \<and> \<not> close_to (1 / 100000000)
        (toy_effect [GridQubit 0 1, GridQubit 0 0]
           [Gate_op ''PhasedXPow'' [NamedQubit ''q_0''], Gate_op ''PhasedXPow'' [NamedQubit ''q_1'']])
        cnot"
proof -
  have tol: "(1 / 100000000 :: real) < 1 / 2" by simp
  from round_trip_ignores_qubit_order [where effect = toy_effect, OF toy_cnot_run _ tol]
    toy_effect_order toy_cnot_run tol close_cnot
  show ?thesis by (simp add: toy_effect_def)
qed

section \<open>Effects on the outside state\<close>




section \<open>Two invocations\<close>




end
